theory Spec2Isabelle
  imports Main
begin

section \<open>The declarations of MultitouchSupport.h\<close>

text \<open>
  The header holds no function body: it is a list of type definitions and function
  prototypes binding to the private MultitouchSupport framework. The embedding therefore
  represents the declarations themselves: a C type is a value of \<open>ctype\<close>, a
  \<open>typedef\<close> is a HOL definition of that name, a struct is the list of its fields in
  declaration order, and a prototype is a record of its name, annotations, result type
  and parameter list.
\<close>

subsection \<open>C types\<close>

text \<open>
  \<open>TExtern\<close> is a type name that the header uses and takes from the imported
  Foundation headers (\<open>CFArrayRef\<close>, \<open>OSStatus\<close>); \<open>TFunPtr\<close> is a pointer to a function
  with the given result type and named parameters.
\<close>

datatype ctype =
    TVoid
  | TInt
  | TFloat
  | TDouble
  | TBool
  | TPtr ctype
  | TStruct "(string \<times> ctype) list"
  | TFunPtr ctype "(string \<times> ctype) list"
  | TExtern string

text \<open>The annotations that the header puts in front of a prototype's result type.\<close>

datatype annotation = CF_RETURNS_RETAINED | Nullable

record prototype =
  fn_name :: string
  annotations :: "annotation list"
  result :: ctype
  params :: "(string \<times> ctype) list"

subsection \<open>Type definitions (lines 7 to 39)\<close>

definition MTDeviceRef :: ctype where
  "MTDeviceRef = TPtr TVoid"

definition MTPoint :: ctype where
  "MTPoint = TStruct [(''x'', TFloat), (''y'', TFloat)]"

definition MTVector :: ctype where
  "MTVector = TStruct [(''position'', MTPoint), (''velocity'', MTPoint)]"

definition MTTouch :: ctype where
  "MTTouch = TStruct
    [(''frame'', TInt),
     (''timestamp'', TDouble),
     (''identifier'', TInt),
     (''state'', TInt),
     (''fingerId'', TInt),
     (''handId'', TInt),
     (''normalized'', MTVector),
     (''size'', TFloat),
     (''zero1'', TInt),
     (''angle'', TFloat),
     (''majorAxis'', TFloat),
     (''minorAxis'', TFloat),
     (''absoluteVector'', MTVector),
     (''zero2'', TInt),
     (''zero3'', TInt),
     (''density'', TFloat)]"

definition MTContactCallbackFunction :: ctype where
  "MTContactCallbackFunction = TFunPtr TVoid
    [(''device'', MTDeviceRef),
     (''touches'', TPtr MTTouch),
     (''numTouches'', TInt),
     (''timestamp'', TDouble),
     (''frame'', TInt)]"

definition MTContactCallbackFunctionWithRefcon :: ctype where
  "MTContactCallbackFunctionWithRefcon = TFunPtr TVoid
    [(''device'', MTDeviceRef),
     (''touches'', TPtr MTTouch),
     (''numTouches'', TInt),
     (''timestamp'', TDouble),
     (''frame'', TInt),
     (''refcon'', TPtr TVoid)]"

subsection \<open>Function prototypes (lines 42 to 52)\<close>

definition MTDeviceCreateList :: prototype where
  "MTDeviceCreateList =
    \<lparr>fn_name = ''MTDeviceCreateList'',
     annotations = [CF_RETURNS_RETAINED, Nullable],
     result = TExtern ''CFArrayRef'',
     params = []\<rparr>"

definition MTRegisterContactFrameCallback :: prototype where
  "MTRegisterContactFrameCallback =
    \<lparr>fn_name = ''MTRegisterContactFrameCallback'',
     annotations = [],
     result = TVoid,
     params = [(''device'', MTDeviceRef), (''callback'', MTContactCallbackFunction)]\<rparr>"

definition MTUnregisterContactFrameCallback :: prototype where
  "MTUnregisterContactFrameCallback =
    \<lparr>fn_name = ''MTUnregisterContactFrameCallback'',
     annotations = [],
     result = TVoid,
     params = [(''device'', MTDeviceRef), (''callback'', MTContactCallbackFunction)]\<rparr>"

definition MTRegisterContactFrameCallbackWithRefcon :: prototype where
  "MTRegisterContactFrameCallbackWithRefcon =
    \<lparr>fn_name = ''MTRegisterContactFrameCallbackWithRefcon'',
     annotations = [],
     result = TVoid,
     params = [(''device'', MTDeviceRef),
               (''callback'', MTContactCallbackFunctionWithRefcon),
               (''refcon'', TPtr TVoid)]\<rparr>"

definition MTDeviceStart :: prototype where
  "MTDeviceStart =
    \<lparr>fn_name = ''MTDeviceStart'',
     annotations = [],
     result = TVoid,
     params = [(''device'', MTDeviceRef), (''mode'', TInt)]\<rparr>"

definition MTDeviceStop :: prototype where
  "MTDeviceStop =
    \<lparr>fn_name = ''MTDeviceStop'',
     annotations = [],
     result = TVoid,
     params = [(''device'', MTDeviceRef)]\<rparr>"

definition MTDeviceIsRunning :: prototype where
  "MTDeviceIsRunning =
    \<lparr>fn_name = ''MTDeviceIsRunning'',
     annotations = [],
     result = TBool,
     params = [(''device'', MTDeviceRef)]\<rparr>"

definition MTDeviceGetDeviceID :: prototype where
  "MTDeviceGetDeviceID =
    \<lparr>fn_name = ''MTDeviceGetDeviceID'',
     annotations = [],
     result = TInt,
     params = [(''device'', MTDeviceRef)]\<rparr>"

definition MTDeviceGetFamilyID :: prototype where
  "MTDeviceGetFamilyID =
    \<lparr>fn_name = ''MTDeviceGetFamilyID'',
     annotations = [],
     result = TInt,
     params = [(''device'', MTDeviceRef)]\<rparr>"

definition MTDeviceIsBuiltIn :: prototype where
  "MTDeviceIsBuiltIn =
    \<lparr>fn_name = ''MTDeviceIsBuiltIn'',
     annotations = [],
     result = TBool,
     params = [(''device'', MTDeviceRef)]\<rparr>"

definition MTDeviceGetSensorSurfaceDimensions :: prototype where
  "MTDeviceGetSensorSurfaceDimensions =
    \<lparr>fn_name = ''MTDeviceGetSensorSurfaceDimensions'',
     annotations = [],
     result = TExtern ''OSStatus'',
     params = [(''device'', MTDeviceRef), (''width'', TPtr TInt), (''height'', TPtr TInt)]\<rparr>"

text \<open>The prototypes of the header, in the order in which it declares them.\<close>

definition declared_functions :: "prototype list" where
  "declared_functions =
    [MTDeviceCreateList,
     MTRegisterContactFrameCallback,
     MTUnregisterContactFrameCallback,
     MTRegisterContactFrameCallbackWithRefcon,
     MTDeviceStart,
     MTDeviceStop,
     MTDeviceIsRunning,
     MTDeviceGetDeviceID,
     MTDeviceGetFamilyID,
     MTDeviceIsBuiltIn,
     MTDeviceGetSensorSurfaceDimensions]"

subsection \<open>Reading a declaration\<close>

text \<open>The fields of a struct type, in declaration order; no other type has fields.\<close>

fun fields :: "ctype \<Rightarrow> (string \<times> ctype) list" where
  "fields (TStruct fs) = fs"
| "fields _ = []"

definition field_names :: "ctype \<Rightarrow> string list" where
  "field_names t = map fst (fields t)"

definition field_type :: "ctype \<Rightarrow> string \<Rightarrow> ctype option" where
  "field_type t n = map_of (fields t) n"

text \<open>The parameters and the result type of a function-pointer type.\<close>

fun callback_params :: "ctype \<Rightarrow> (string \<times> ctype) list" where
  "callback_params (TFunPtr r ps) = ps"
| "callback_params _ = []"

fun callback_result :: "ctype \<Rightarrow> ctype option" where
  "callback_result (TFunPtr r ps) = Some r"
| "callback_result _ = None"

text \<open>
  Modelled from the spec: the widths of C's arithmetic types, which the header does not
  fix but takes from the data model of the platform it is compiled for. The spec gives
  the point's \<open>float\<close> as 32 bits wide; \<open>int\<close> is the 32-bit two's-complement integer and
  \<open>double\<close> the 64-bit float of every data model that Foundation is built for. The
  widths of \<open>bool\<close> and of pointers differ between those data models and are left open,
  as are the types that have no single scalar representation.
\<close>

datatype scalar = SignedInteger nat | FloatingPoint nat

fun scalar_of :: "ctype \<Rightarrow> scalar option" where
  "scalar_of TInt = Some (SignedInteger 32)"
| "scalar_of TFloat = Some (FloatingPoint 32)"
| "scalar_of TDouble = Some (FloatingPoint 64)"
| "scalar_of _ = None"

text \<open>
  The scalar members that a type stores, in storage order: a struct contributes the
  members of its fields one after the other, every other type is a single member.
\<close>

fun members :: "ctype \<Rightarrow> ctype list" where
  "members (TStruct fs) = concat (map (\<lambda>(n, t). members t) fs)"
| "members t = [t]"

text \<open>The type that a pointer type points to.\<close>

fun pointee :: "ctype \<Rightarrow> ctype option" where
  "pointee (TPtr t) = Some t"
| "pointee _ = None"

text \<open>
  The names of the fields declared strictly after the first field named \<open>a\<close> and before
  the next field named \<open>b\<close>.
\<close>

definition fields_between :: "string \<Rightarrow> string \<Rightarrow> ctype \<Rightarrow> string list" where
  "fields_between a b t =
     takeWhile (\<lambda>n. n \<noteq> b) (tl (dropWhile (\<lambda>n. n \<noteq> a) (field_names t)))"

text \<open>The reserved fields of a struct are those whose name starts with \<open>zero\<close>.\<close>

definition reserved_fields :: "ctype \<Rightarrow> (string \<times> ctype) list" where
  "reserved_fields t = filter (\<lambda>(n, ty). take 4 n = ''zero'') (fields t)"

text \<open>
  A prototype has a failure channel when its result can tell the caller that the call
  did not succeed: the result is annotated as possibly null, or it is a status code.
\<close>

definition admits_absence :: "prototype \<Rightarrow> bool" where
  "admits_absence f = (Nullable \<in> set (annotations f))"

definition caller_owns_result :: "prototype \<Rightarrow> bool" where
  "caller_owns_result f = (CF_RETURNS_RETAINED \<in> set (annotations f))"

definition returns_status :: "prototype \<Rightarrow> bool" where
  "returns_status f = (result f = TExtern ''OSStatus'')"

definition has_failure_channel :: "prototype \<Rightarrow> bool" where
  "has_failure_channel f = (admits_absence f \<or> returns_status f)"

text \<open>
  An output parameter is a pointer to a location that the callee fills in: a pointer to
  anything but \<open>void\<close>. The device handle and the context pointer are \<open>void *\<close> and a
  callback is a function pointer, so none of them is an output.
\<close>

fun is_output :: "ctype \<Rightarrow> bool" where
  "is_output (TPtr TVoid) = False"
| "is_output (TPtr t) = True"
| "is_output _ = False"

definition out_params :: "prototype \<Rightarrow> (string \<times> ctype) list" where
  "out_params f = filter (\<lambda>(n, t). is_output t) (params f)"

text \<open>
  Every named slot of the interface: the fields of the touch record, the parameters of
  the two callback types and the parameters of the prototypes.
\<close>

definition interface_slots :: "(string \<times> ctype) list" where
  "interface_slots =
     fields MTTouch
     @ callback_params MTContactCallbackFunction
     @ callback_params MTContactCallbackFunctionWithRefcon
     @ concat (map params declared_functions)"

definition slots_named :: "string \<Rightarrow> ctype list" where
  "slots_named n = map snd (filter (\<lambda>(m, t). m = n) interface_slots)"

section \<open>Unfolding the declarations\<close>

lemmas prototype_defs = MTDeviceCreateList_def MTRegisterContactFrameCallback_def
  MTUnregisterContactFrameCallback_def MTRegisterContactFrameCallbackWithRefcon_def
  MTDeviceStart_def MTDeviceStop_def MTDeviceIsRunning_def MTDeviceGetDeviceID_def
  MTDeviceGetFamilyID_def MTDeviceIsBuiltIn_def MTDeviceGetSensorSurfaceDimensions_def

section \<open>Points and motion vectors\<close>

text \<open>
  C7. The 2D point type is exactly a pair of 32-bit floats named x and y, in that order,
  and the motion-vector type is exactly a position point followed by a velocity point;
  neither has any other field.
\<close>

theorem point_and_vector_shape:
  "field_names MTPoint = [''x'', ''y'']
   \<and> map (scalar_of \<circ> snd) (fields MTPoint) = [Some (FloatingPoint 32), Some (FloatingPoint 32)]
   \<and> field_names MTVector = [''position'', ''velocity'']
   \<and> map snd (fields MTVector) = [MTPoint, MTPoint]
   \<and> MTVector = TStruct [(''position'', MTPoint), (''velocity'', MTPoint)]
   \<and> MTPoint = TStruct [(''x'', TFloat), (''y'', TFloat)]"
  by (simp add: field_names_def MTPoint_def MTVector_def)

section \<open>The touch record\<close>

text \<open>
  C1. The touch-sample record declares exactly the fields that the spec lists: a frame
  counter, a timestamp, a touch identifier, a lifecycle state code, finger and hand
  identifiers, a normalized motion vector, a size, an angle, major and minor axis
  lengths, an absolute motion vector, a density and the reserved zero fields. They stand
  in one fixed declaration order, no name is declared twice, each has a fixed type, and
  every scalar member that the record stores has a fixed width: a 32-bit integer, a
  32-bit float or, for the timestamp, a 64-bit float.
\<close>

theorem touch_record_fields:
  "set (field_names MTTouch) =
     {''frame'', ''timestamp'', ''identifier'', ''state'', ''fingerId'', ''handId'',
      ''normalized'', ''size'', ''angle'', ''majorAxis'', ''minorAxis'',
      ''absoluteVector'', ''density'', ''zero1'', ''zero2'', ''zero3''}
   \<and> field_names MTTouch =
     [''frame'', ''timestamp'', ''identifier'', ''state'', ''fingerId'', ''handId'',
      ''normalized'', ''size'', ''zero1'', ''angle'', ''majorAxis'', ''minorAxis'',
      ''absoluteVector'', ''zero2'', ''zero3'', ''density'']
   \<and> distinct (field_names MTTouch)
   \<and> map snd (fields MTTouch) =
     [TInt, TDouble, TInt, TInt, TInt, TInt, MTVector, TFloat, TInt, TFloat, TFloat,
      TFloat, MTVector, TInt, TInt, TFloat]
   \<and> map scalar_of (members MTVector) = replicate 4 (Some (FloatingPoint 32))
   \<and> map scalar_of (members MTTouch) =
     [Some (SignedInteger 32), Some (FloatingPoint 64)]
     @ replicate 4 (Some (SignedInteger 32))
     @ replicate 4 (Some (FloatingPoint 32))
     @ [Some (FloatingPoint 32), Some (SignedInteger 32)]
     @ replicate 3 (Some (FloatingPoint 32))
     @ replicate 4 (Some (FloatingPoint 32))
     @ [Some (SignedInteger 32), Some (SignedInteger 32), Some (FloatingPoint 32)]"
proof -
  have names: "field_names MTTouch =
     [''frame'', ''timestamp'', ''identifier'', ''state'', ''fingerId'', ''handId'',
      ''normalized'', ''size'', ''zero1'', ''angle'', ''majorAxis'', ''minorAxis'',
      ''absoluteVector'', ''zero2'', ''zero3'', ''density'']"
    by (simp add: field_names_def MTTouch_def)
  have as_set: "set (field_names MTTouch) =
     {''frame'', ''timestamp'', ''identifier'', ''state'', ''fingerId'', ''handId'',
      ''normalized'', ''size'', ''angle'', ''majorAxis'', ''minorAxis'',
      ''absoluteVector'', ''density'', ''zero1'', ''zero2'', ''zero3''}"
    unfolding names by auto
  have no_repeat: "distinct (field_names MTTouch)"
    unfolding names by simp
  have types: "map snd (fields MTTouch) =
     [TInt, TDouble, TInt, TInt, TInt, TInt, MTVector, TFloat, TInt, TFloat, TFloat,
      TFloat, MTVector, TInt, TInt, TFloat]"
    by (simp add: MTTouch_def)
  have vec: "members MTVector = [TFloat, TFloat, TFloat, TFloat]"
    by (simp add: MTVector_def MTPoint_def)
  have touch: "members MTTouch =
     [TInt, TDouble, TInt, TInt, TInt, TInt] @ members MTVector
     @ [TFloat, TInt, TFloat, TFloat, TFloat] @ members MTVector @ [TInt, TInt, TFloat]"
    by (simp add: MTTouch_def MTVector_def)
  have w4: "replicate 4 x = [x, x, x, x]" for x :: "scalar option"
    by (simp add: numeral_eq_Suc)
  have w3: "replicate 3 x = [x, x, x]" for x :: "scalar option"
    by (simp add: numeral_eq_Suc)
  have widths_vec: "map scalar_of (members MTVector) = replicate 4 (Some (FloatingPoint 32))"
    unfolding vec w4 by simp
  have widths: "map scalar_of (members MTTouch) =
     [Some (SignedInteger 32), Some (FloatingPoint 64)]
     @ replicate 4 (Some (SignedInteger 32))
     @ replicate 4 (Some (FloatingPoint 32))
     @ [Some (FloatingPoint 32), Some (SignedInteger 32)]
     @ replicate 3 (Some (FloatingPoint 32))
     @ replicate 4 (Some (FloatingPoint 32))
     @ [Some (SignedInteger 32), Some (SignedInteger 32), Some (FloatingPoint 32)]"
    unfolding touch vec w4 w3 by simp
  from as_set names no_repeat types widths_vec widths show ?thesis by blast
qed

text \<open>
  C9. The touch record has exactly three reserved zero fields, each a 32-bit integer.
  They do not trail the record: \<open>zero1\<close> is the one field between \<open>size\<close> and \<open>angle\<close>,
  \<open>zero2\<close> and \<open>zero3\<close> are the two fields between \<open>absoluteVector\<close> and \<open>density\<close>, and
  \<open>density\<close> is the last field.
\<close>

theorem reserved_fields_interleaved:
  "reserved_fields MTTouch = [(''zero1'', TInt), (''zero2'', TInt), (''zero3'', TInt)]
   \<and> scalar_of TInt = Some (SignedInteger 32)
   \<and> fields_between ''size'' ''angle'' MTTouch = [''zero1'']
   \<and> fields_between ''absoluteVector'' ''density'' MTTouch = [''zero2'', ''zero3'']
   \<and> last (field_names MTTouch) = ''density''"
  by (simp add: reserved_fields_def fields_between_def field_names_def MTTouch_def)

section \<open>The callback types\<close>

text \<open>
  C5. The simple callback type takes exactly five parameters, in this order: a device
  handle, a pointer to touch samples, a count, a timestamp and a frame number. The
  context-carrying callback type takes the same five followed by one \<open>void *\<close> context.
  Registering takes a device handle and a callback of the matching type, and the
  context variant takes the context pointer as well.
\<close>

theorem callback_shapes:
  "callback_params MTContactCallbackFunction =
     [(''device'', MTDeviceRef), (''touches'', TPtr MTTouch), (''numTouches'', TInt),
      (''timestamp'', TDouble), (''frame'', TInt)]
   \<and> length (callback_params MTContactCallbackFunction) = 5
   \<and> callback_params MTContactCallbackFunctionWithRefcon =
     callback_params MTContactCallbackFunction @ [(''refcon'', TPtr TVoid)]
   \<and> callback_result MTContactCallbackFunction = Some TVoid
   \<and> callback_result MTContactCallbackFunctionWithRefcon = Some TVoid
   \<and> params MTRegisterContactFrameCallback =
     [(''device'', MTDeviceRef), (''callback'', MTContactCallbackFunction)]
   \<and> params MTRegisterContactFrameCallbackWithRefcon =
     [(''device'', MTDeviceRef), (''callback'', MTContactCallbackFunctionWithRefcon),
      (''refcon'', TPtr TVoid)]"
  by (simp add: MTContactCallbackFunction_def MTContactCallbackFunctionWithRefcon_def
      MTRegisterContactFrameCallback_def MTRegisterContactFrameCallbackWithRefcon_def)

section \<open>The prototypes\<close>

text \<open>
  C2, as the header has it. The header declares exactly eleven function prototypes, with
  eleven different names: the two operations that the spec's list gives in two variants
  each (registering a callback, and reading the device or the family identifier) are two
  prototypes each.
\<close>

theorem eleven_prototypes:
  "length declared_functions = 11
   \<and> map fn_name declared_functions =
     [''MTDeviceCreateList'', ''MTRegisterContactFrameCallback'',
      ''MTUnregisterContactFrameCallback'', ''MTRegisterContactFrameCallbackWithRefcon'',
      ''MTDeviceStart'', ''MTDeviceStop'', ''MTDeviceIsRunning'', ''MTDeviceGetDeviceID'',
      ''MTDeviceGetFamilyID'', ''MTDeviceIsBuiltIn'', ''MTDeviceGetSensorSurfaceDimensions'']
   \<and> distinct (map fn_name declared_functions)"
  by (simp add: declared_functions_def prototype_defs)

text \<open>
  C2, as the spec has it. The number of declared prototypes is not nine.
\<close>

theorem nine_prototypes_counterexample:
  "length declared_functions \<noteq> 9"
  by (simp add: declared_functions_def)

text \<open>
  C3. Exactly two of the declared prototypes have a failure channel: listing the
  devices, whose result may be null, and the query for the sensor surface dimensions,
  whose result is a status code. Each of the other nine returns \<open>void\<close>, a \<open>bool\<close> or an
  \<open>int\<close>. Start and stop return \<open>void\<close> and have no output parameter, so nothing comes
  back from them.
\<close>

theorem failure_channels:
  "map fn_name (filter has_failure_channel declared_functions) =
     [''MTDeviceCreateList'', ''MTDeviceGetSensorSurfaceDimensions'']
   \<and> admits_absence MTDeviceCreateList
   \<and> returns_status MTDeviceGetSensorSurfaceDimensions
   \<and> map (\<lambda>f. (fn_name f, result f)) (filter (\<lambda>f. \<not> has_failure_channel f) declared_functions) =
     [(''MTRegisterContactFrameCallback'', TVoid),
      (''MTUnregisterContactFrameCallback'', TVoid),
      (''MTRegisterContactFrameCallbackWithRefcon'', TVoid),
      (''MTDeviceStart'', TVoid),
      (''MTDeviceStop'', TVoid),
      (''MTDeviceIsRunning'', TBool),
      (''MTDeviceGetDeviceID'', TInt),
      (''MTDeviceGetFamilyID'', TInt),
      (''MTDeviceIsBuiltIn'', TBool)]
   \<and> \<not> has_failure_channel MTDeviceStart \<and> result MTDeviceStart = TVoid
   \<and> out_params MTDeviceStart = []
   \<and> \<not> has_failure_channel MTDeviceStop \<and> result MTDeviceStop = TVoid
   \<and> out_params MTDeviceStop = []"
  by (simp add: declared_functions_def prototype_defs has_failure_channel_def
      admits_absence_def returns_status_def out_params_def MTDeviceRef_def)

text \<open>
  The prototype that lists the devices takes no argument. Its result is a \<open>CFArrayRef\<close>
  annotated as retained for the caller and as possibly null, and it is the only
  prototype with either annotation. This is all that the header fixes about the call:
  which of the two results the framework gives on a machine without a compatible
  device, and whether the call returns at all there, is decided inside the framework,
  of which the header holds no code.
\<close>

lemma list_devices_signature:
  "params MTDeviceCreateList = []
   \<and> result MTDeviceCreateList = TExtern ''CFArrayRef''
   \<and> caller_owns_result MTDeviceCreateList
   \<and> admits_absence MTDeviceCreateList
   \<and> map fn_name (filter admits_absence declared_functions) = [''MTDeviceCreateList'']
   \<and> map fn_name (filter caller_owns_result declared_functions) = [''MTDeviceCreateList'']"
  by (simp add: declared_functions_def prototype_defs admits_absence_def caller_owns_result_def)

text \<open>
  C8. Start takes a device handle and one \<open>int\<close> mode, for which the header declares
  neither an enumeration nor a constant; stop takes the device handle alone. Both
  return \<open>void\<close>. No other prototype has a mode parameter.
\<close>

theorem start_and_stop_signatures:
  "params MTDeviceStart = [(''device'', MTDeviceRef), (''mode'', TInt)]
   \<and> result MTDeviceStart = TVoid
   \<and> params MTDeviceStop = [(''device'', MTDeviceRef)]
   \<and> result MTDeviceStop = TVoid
   \<and> map fn_name (filter (\<lambda>f. map_of (params f) ''mode'' = Some TInt) declared_functions)
       = [''MTDeviceStart'']"
  by (simp add: declared_functions_def prototype_defs MTDeviceRef_def
      MTContactCallbackFunction_def MTContactCallbackFunctionWithRefcon_def)

section \<open>Timestamps, counters and identifiers\<close>

text \<open>
  C10. Every slot of the interface named \<open>timestamp\<close> (the field of the touch record and
  the parameter of either callback type) is a \<open>double\<close>, 64 bits wide. The frame numbers,
  the touch, finger and hand identifiers, the state code, the touch count, the mode, and
  the results of the device and family identifier queries are \<open>int\<close>, and the width and
  height outputs point to \<open>int\<close>: a signed integer 32 bits wide.
\<close>

theorem timestamps_and_counters:
  "slots_named ''timestamp'' = [TDouble, TDouble, TDouble]
   \<and> field_type MTTouch ''timestamp'' = Some TDouble
   \<and> map_of (callback_params MTContactCallbackFunction) ''timestamp'' = Some TDouble
   \<and> map_of (callback_params MTContactCallbackFunctionWithRefcon) ''timestamp'' = Some TDouble
   \<and> scalar_of TDouble = Some (FloatingPoint 64)
   \<and> slots_named ''frame'' = [TInt, TInt, TInt]
   \<and> slots_named ''identifier'' = [TInt]
   \<and> slots_named ''fingerId'' = [TInt]
   \<and> slots_named ''handId'' = [TInt]
   \<and> slots_named ''state'' = [TInt]
   \<and> slots_named ''numTouches'' = [TInt, TInt]
   \<and> result MTDeviceGetDeviceID = TInt
   \<and> result MTDeviceGetFamilyID = TInt
   \<and> slots_named ''mode'' = [TInt]
   \<and> map pointee (slots_named ''width'') = [Some TInt]
   \<and> map pointee (slots_named ''height'') = [Some TInt]
   \<and> scalar_of TInt = Some (SignedInteger 32)"
  by (simp add: slots_named_def interface_slots_def field_type_def declared_functions_def
      prototype_defs MTTouch_def MTContactCallbackFunction_def
      MTContactCallbackFunctionWithRefcon_def)

end
